theory Spec2Isabelle
  imports Complex_Main "HOL-Library.Multiset"
begin

section \<open>PayPal Commerce checkout button strategy\<close>

text \<open>
  A shallow embedding of \<^verbatim>\<open>PaypalCommerceButtonStrategy\<close>
  (\<^verbatim>\<open>src/checkout-buttons/strategies/paypal-commerce/paypal-commerce-button-strategy.ts\<close>):
  the private fields of the class are a record that every method takes and returns,
  a \<^verbatim>\<open>throw\<close> is the left injection of a sum, and the calls a method issues to its
  collaborators (the payment processor and the widget's \<^verbatim>\<open>actions\<close>) are returned as a
  list, in the order in which they are issued.
\<close>

subsection \<open>Data\<close>

text \<open>
  The interfaces of \<^verbatim>\<open>geography\<close>, \<^verbatim>\<open>cart\<close> and \<^verbatim>\<open>payment/strategies/paypal-commerce\<close>,
  with the fields that the strategy reads. The fields of the provider's shipping
  address, which the code guards against \<^verbatim>\<open>undefined\<close>, and the list of available
  options, which it reads with \<^verbatim>\<open>?.\<close>, are options. Field names are the source's, with a prefix where two
  interfaces share a name (\<^verbatim>\<open>code\<close>, \<^verbatim>\<open>id\<close>, \<^verbatim>\<open>city\<close>, \<^verbatim>\<open>value\<close>, \<^verbatim>\<open>amount\<close>, \<^verbatim>\<open>lineItems\<close>).
\<close>

record Region =
  Region_code :: string

record Country =
  Country_code :: string
  subdivisions :: "Region list"

record CountryTable =
  data :: "Country list"

record UnitedStatesCodes =
  name :: string
  us_abbreviation :: string

record ShippingAddress =
  contact_city :: "string option"
  postal_code :: "string option"
  country_code :: "string option"
  state :: "string option"

record Address =
  city :: "string option"
  postalCode :: "string option"
  countryCode :: "string option"

record LineItem =
  item_id :: string
  item_quantity :: int

record CollectedLineItem =
  itemId :: string
  quantity :: int

record LineItemMap =
  digitalItems :: "LineItem list"
  physicalItems :: "LineItem list"

text \<open>
  A JavaScript number that arrives in a JSON document is finite; it is modelled by its
  exact rational value. The rounding of IEEE doubles is outside the model.
\<close>

record Cart =
  cart_id :: string
  baseAmount :: rat
  lineItems :: LineItemMap

record AvaliableShippingOption =
  option_id :: string
  description :: string
  cost :: rat
  isRecommended :: bool

record Consignment =
  consignment_id :: string
  availableShippingOptions :: "AvaliableShippingOption list option"

record CheckoutWithBillingAddress =
  consignments :: "Consignment list"
  cart :: Cart

record Money =
  currency_code :: string
  money_value :: string

record SelectedShippingOption =
  selected_id :: string
  amount :: Money

record ShippingChangeData =
  shipping_address :: ShippingAddress
  selected_shipping_option :: "SelectedShippingOption option"

record ConsignmentPayload =
  shippingAddress :: Address
  payload_lineItems :: "CollectedLineItem list"

text \<open>The entries of the list that the handler attaches to the order (lines 189-198).\<close>

record ShippingOption =
  so_id :: string
  so_type :: string
  label :: string
  selected :: bool
  so_amount :: Money

text \<open>The operations sent to \<^verbatim>\<open>actions.order.patch\<close> (lines 150-165 and 210-234).\<close>

record ItemTotal =
  item_total_currency_code :: string
  item_total_value :: rat

record Breakdown =
  item_total :: ItemTotal
  shipping :: "Money option"

record AmountValue =
  amount_currency_code :: string
  amount_value :: string
  breakdown :: Breakdown

datatype PatchValue = Amount AmountValue | Options "ShippingOption list"

record PatchOperation =
  op :: string
  path :: string
  patch_value :: PatchValue

text \<open>The private fields of the class (lines 14-19).\<close>

record Cache =
  countries :: "CountryTable option"

record Strategy =
  isCredit :: "bool option"
  cache :: "Cache option"
  submittedShippingAddress :: "Address option"
  currentShippingAddress :: "Address option"
  shippingOptionId :: "string option"
  intent :: "string option"

datatype Error = InvalidArgumentError string | TypeError

text \<open>
  The calls that the handler issues: to the payment processor
  (\<^verbatim>\<open>getStoreCountries\<close>, \<^verbatim>\<open>getShippingOptions\<close>) and to the widget's actions
  (\<^verbatim>\<open>order.patch\<close>, \<^verbatim>\<open>reject\<close>, \<^verbatim>\<open>resolve\<close>).
\<close>

datatype Call =
    GetStoreCountries
  | GetShippingOptions string "ConsignmentPayload list"
  | OrderPatch "PatchOperation list"
  | ActionsReject
  | ActionsResolve

text \<open>What the handler returns: the result of the patch, of the reject or of the resolve.\<close>

datatype Outcome = Patched | Rejected | Resolved

text \<open>
  A number that the strategy computes: a finite value, or \<^verbatim>\<open>NaN\<close> when \<^verbatim>\<open>parseFloat\<close>
  finds no number in a string.
\<close>

datatype jsnum = Num rat | NaN

text \<open>
  What the strategy is given from outside this file: the constant
  \<^verbatim>\<open>UNITED_STATES_CODES\<close> of \<^verbatim>\<open>geography\<close>, the host's \<^verbatim>\<open>parseFloat\<close> on strings, and
  the answers of the payment processor to \<^verbatim>\<open>getStoreCountries\<close> and
  \<^verbatim>\<open>getShippingOptions\<close>. The processor answers every request; a request that is
  rejected, which ends the handler with that rejection, is outside the model.
\<close>

record Env =
  UNITED_STATES_CODES :: "UnitedStatesCodes list"
  parseFloat :: "string \<Rightarrow> jsnum"
  getStoreCountries :: CountryTable
  getShippingOptions :: "string \<Rightarrow> ConsignmentPayload list \<Rightarrow> CheckoutWithBillingAddress"

subsection \<open>Host functions\<close>

text \<open>\<^verbatim>\<open>String.prototype.toUpperCase\<close> on ASCII letters; other bytes are kept.\<close>

definition toUpperChar :: "char \<Rightarrow> char" where
  "toUpperChar c =
     (case map_of (zip ''abcdefghijklmnopqrstuvwxyz'' ''ABCDEFGHIJKLMNOPQRSTUVWXYZ'') c of
        Some u \<Rightarrow> u
      | None \<Rightarrow> c)"

definition toUpperCase :: "string \<Rightarrow> string" where
  "toUpperCase s = map toUpperChar s"

text \<open>Addition of numbers: \<^verbatim>\<open>NaN\<close> is absorbing, finite values add exactly.\<close>

fun jsAdd :: "jsnum \<Rightarrow> jsnum \<Rightarrow> jsnum" where
  "jsAdd (Num a) (Num b) = Num (a + b)"
| "jsAdd _ _ = NaN"

definition digitChar :: "nat \<Rightarrow> char" where
  "digitChar d = ''0123456789'' ! (d mod 10)"

function digitsOf :: "nat \<Rightarrow> string" where
  "digitsOf n = (if n < 10 then [digitChar n] else digitsOf (n div 10) @ [digitChar n])"
  by pat_completeness auto
termination
  by (relation "measure (\<lambda>n. n)") auto

declare digitsOf.simps [simp del]

text \<open>
  \<^verbatim>\<open>Number.prototype.toFixed(2)\<close>: the sign, then the integer \<open>n\<close> nearest to
  \<open>100 * |x|\<close> (the larger one of two), written with two digits after the point.
  Values from \<open>10^21\<close> on, which the host writes in exponent form, are outside the model.
\<close>

fun toFixed2 :: "jsnum \<Rightarrow> string" where
  "toFixed2 NaN = ''NaN''"
| "toFixed2 (Num x) =
     (let n = nat \<lfloor>\<bar>x\<bar> * 100 + 1 / 2\<rfloor>
      in (if x < 0 then ''-'' else '''') @ digitsOf (n div 100) @ ''.'' @
         [digitChar (n mod 100 div 10), digitChar n])"

declare toFixed2.simps [simp del]

subsection \<open>Address translation\<close>

text \<open>\<^verbatim>\<open>_isAddressSame\<close> (lines 241-243): equality of the JSON texts.
  \<^verbatim>\<open>JSON.stringify\<close> writes the defined fields of an address in their fixed order and
  nothing for \<^verbatim>\<open>undefined\<close>, so two texts are equal exactly when the values are.\<close>

definition isAddressSame :: "Address option \<Rightarrow> Address option \<Rightarrow> bool" where
  "isAddressSame address1 address2 = (address1 = address2)"

text \<open>\<^verbatim>\<open>_transformUSCodes\<close> (lines 245-249).\<close>

definition transformUSCodes :: "UnitedStatesCodes list \<Rightarrow> string option \<Rightarrow> UnitedStatesCodes option" where
  "transformUSCodes table code =
     find (\<lambda>st. Some (name st) = code \<and> us_abbreviation st \<noteq> '''') table"

text \<open>
  \<^verbatim>\<open>_transformToAddress\<close> (lines 251-277). The processor is asked for the store's
  countries first; the cached table, if there is one, is the one used, and it is
  written back to the cache.
\<close>

definition transformToAddress ::
  "Env \<Rightarrow> Strategy \<Rightarrow> ShippingAddress \<Rightarrow> Call list \<times> Strategy \<times> (Error + Address)" where
  "transformToAddress env this contact =
     (let getCountries = getStoreCountries env;
          countries' = (case cache this of
                          None \<Rightarrow> getCountries
                        | Some c \<Rightarrow> (case countries c of None \<Rightarrow> getCountries | Some t \<Rightarrow> t));
          this' = (case cache this of
                     None \<Rightarrow> this
                   | Some c \<Rightarrow> this\<lparr>cache := Some (c\<lparr>countries := Some countries'\<rparr>)\<rparr>);
          address = \<lparr>city = contact_city contact,
                     postalCode = postal_code contact,
                     countryCode = country_code contact\<rparr>;
          addressCountry =
            find (\<lambda>country. Country_code country =
                    toUpperCase (case country_code contact of None \<Rightarrow> '''' | Some c \<Rightarrow> c))
                 (data countries');
          stateAddress =
            (case addressCountry of
               None \<Rightarrow> None
             | Some country \<Rightarrow>
                 find (\<lambda>region. Some (Region_code region) = map_option toUpperCase (state contact)
                         \<or> transformUSCodes (UNITED_STATES_CODES env) (state contact) \<noteq> None)
                      (subdivisions country))
      in case stateAddress of
           Some region \<Rightarrow>
             ([GetStoreCountries], this', Inr (address\<lparr>postalCode := Some (Region_code region)\<rparr>))
         | None \<Rightarrow>
             ([GetStoreCountries], this', Inl (InvalidArgumentError ''Invalid Address'')))"

subsection \<open>The shipping-change handler\<close>

text \<open>\<^verbatim>\<open>_collectLineItems\<close> (lines 279-286): digital items first, then physical ones.\<close>

definition collectLineItems :: "LineItemMap \<Rightarrow> CollectedLineItem list" where
  "collectLineItems items =
     map (\<lambda>i. \<lparr>itemId = item_id i, quantity = item_quantity i\<rparr>)
       (digitalItems items @ physicalItems items)"

text \<open>
  The object that the callback of \<^verbatim>\<open>availableShippingOptions.map\<close> returns
  (lines 189-198). \<^verbatim>\<open>parseFloat(String(n))\<close> of a number \<open>n\<close> is \<open>n\<close> again.
\<close>

definition shippingEntry :: "AvaliableShippingOption \<Rightarrow> bool \<Rightarrow> ShippingOption" where
  "shippingEntry option isSelected =
     \<lparr>so_id = option_id option,
      so_type = ''SHIPPING'',
      label = description option,
      selected = isSelected,
      so_amount = \<lparr>currency_code = ''USD'', money_value = toFixed2 (Num (cost option))\<rparr>\<rparr>"

text \<open>
  The callback itself (lines 172-199). It assigns to the variable \<^verbatim>\<open>shippingAmount\<close>
  of the enclosing handler, so the model takes the current value of the variable and
  returns the new one with the entry.
\<close>

definition decorateOption ::
  "ShippingChangeData \<Rightarrow> Strategy \<Rightarrow> string \<Rightarrow> AvaliableShippingOption \<Rightarrow> string \<times> ShippingOption" where
  "decorateOption data' this shippingAmount option =
     (let (shippingAmount', isSelected) =
        (case selected_shipping_option data' of
           Some chosen \<Rightarrow>
             if isAddressSame (currentShippingAddress this) (submittedShippingAddress this)
             then (if option_id option = selected_id chosen
                   then (money_value (amount chosen), True)
                   else (shippingAmount, False))
             else (if isRecommended option
                   then (toFixed2 (Num (cost option)), True)
                   else (shippingAmount, False))
         | None \<Rightarrow>
             if isRecommended option
             then (toFixed2 (Num (cost option)), True)
             else (shippingAmount, False))
      in (shippingAmount', shippingEntry option isSelected))"

text \<open>\<^verbatim>\<open>Array.prototype.map\<close> with that callback: left to right, the variable threaded through.\<close>

fun mapOptions ::
  "(string \<Rightarrow> AvaliableShippingOption \<Rightarrow> string \<times> ShippingOption) \<Rightarrow> string \<Rightarrow>
   AvaliableShippingOption list \<Rightarrow> string \<times> ShippingOption list" where
  "mapOptions f shippingAmount [] = (shippingAmount, [])"
| "mapOptions f shippingAmount (x # xs) =
     (let (shippingAmount', y) = f shippingAmount x;
          (shippingAmount'', ys) = mapOptions f shippingAmount' xs
      in (shippingAmount'', y # ys))"

text \<open>
  The comparator given to \<^verbatim>\<open>sort\<close> (lines 201-203):
  \<^verbatim>\<open>(a.selected === b.selected) ? 0 : a ? -1 : 1\<close>. The second condition is the object
  \<^verbatim>\<open>a\<close> itself, which is truthy, so the last branch is never taken.
\<close>

definition compareFn :: "ShippingOption \<Rightarrow> ShippingOption \<Rightarrow> int" where
  "compareFn a b = (if selected a = selected b then 0 else if True then - 1 else 1)"

text \<open>
  \<^verbatim>\<open>Array.prototype.sort\<close> is the host's. It is modelled by the stable insertion sort:
  every element, from the second on, moves to the left past each neighbour that the
  comparator puts after it (\<open>cmp x y < 0\<close> with \<open>x\<close> the moving element). The sorted
  prefix is kept in reverse, its last element first.
\<close>

fun insertSorted :: "('a \<Rightarrow> 'a \<Rightarrow> int) \<Rightarrow> 'a \<Rightarrow> 'a list \<Rightarrow> 'a list" where
  "insertSorted cmp x [] = [x]"
| "insertSorted cmp x (y # prefix) =
     (if cmp x y < 0 then y # insertSorted cmp x prefix else x # y # prefix)"

definition sortBy :: "('a \<Rightarrow> 'a \<Rightarrow> int) \<Rightarrow> 'a list \<Rightarrow> 'a list" where
  "sortBy cmp xs = rev (foldl (\<lambda>prefix x. insertSorted cmp x prefix) [] xs)"

text \<open>
  A host may read the comparator the other way round: it asks about the earlier element
  first and moves the later one to the left only on a positive answer. This second
  insertion sort is used below to show what such a host does with \<open>compareFn\<close>; the
  handler is modelled with \<open>sortBy\<close>.
\<close>

fun insertForward :: "('a \<Rightarrow> 'a \<Rightarrow> int) \<Rightarrow> 'a \<Rightarrow> 'a list \<Rightarrow> 'a list" where
  "insertForward cmp x [] = [x]"
| "insertForward cmp x (y # prefix) =
     (if cmp y x > 0 then y # insertForward cmp x prefix else x # y # prefix)"

definition sortByForward :: "('a \<Rightarrow> 'a \<Rightarrow> int) \<Rightarrow> 'a list \<Rightarrow> 'a list" where
  "sortByForward cmp xs = rev (foldl (\<lambda>prefix x. insertForward cmp x prefix) [] xs)"

text \<open>
  The \<^verbatim>\<open>replace\<close> operation of the branch without shipping (lines 151-164). As in the
  callback above, \<^verbatim>\<open>parseFloat(String(baseOrderAmount))\<close> is the number itself.
\<close>

definition amountPatch :: "rat \<Rightarrow> PatchOperation" where
  "amountPatch baseOrderAmount =
     \<lparr>op = ''replace'',
      path = ''/purchase_units/@reference_id=='default'/amount'',
      patch_value = Amount
        \<lparr>amount_currency_code = ''USD'',
         amount_value = toFixed2 (Num baseOrderAmount),
         breakdown = \<lparr>item_total = \<lparr>item_total_currency_code = ''USD'',
                                     item_total_value = baseOrderAmount\<rparr>,
                      shipping = None\<rparr>\<rparr>\<rparr>"

text \<open>The two operations of the branch with shipping options (lines 211-233).\<close>

definition shippingPatch :: "Env \<Rightarrow> rat \<Rightarrow> string \<Rightarrow> ShippingOption list \<Rightarrow> PatchOperation list" where
  "shippingPatch env baseOrderAmount shippingAmount shippingOptions =
     [\<lparr>op = ''replace'',
       path = ''/purchase_units/@reference_id=='default'/amount'',
       patch_value = Amount
         \<lparr>amount_currency_code = ''USD'',
          amount_value = toFixed2 (jsAdd (Num baseOrderAmount) (parseFloat env shippingAmount)),
          breakdown = \<lparr>item_total = \<lparr>item_total_currency_code = ''USD'',
                                      item_total_value = baseOrderAmount\<rparr>,
                       shipping = Some \<lparr>currency_code = ''USD'', money_value = shippingAmount\<rparr>\<rparr>\<rparr>\<rparr>,
      \<lparr>op = ''add'',
       path = ''/purchase_units/@reference_id=='default'/shipping/options'',
       patch_value = Options shippingOptions\<rparr>]"

text \<open>
  The last branch of \<^verbatim>\<open>_onShippingChangeHandler\<close> (lines 171-238), taken when shipping is
  required and the list of available options is not an empty array. Without a list
  (\<^verbatim>\<open>availableShippingOptions\<close> undefined) every \<^verbatim>\<open>?.\<close> and every test of
  \<^verbatim>\<open>shippingOptions\<close> falls through and no patch is sent. \<^verbatim>\<open>shippingOptions[0].id\<close> of an
  empty list throws.
\<close>

definition shippingBranch ::
  "Env \<Rightarrow> Strategy \<Rightarrow> ShippingChangeData \<Rightarrow> rat \<Rightarrow> string \<Rightarrow> Call list \<Rightarrow>
   AvaliableShippingOption list option \<Rightarrow> Call list \<times> Strategy \<times> (Error + Outcome)" where
  "shippingBranch env this data' baseOrderAmount shippingAmount calls available =
     (case available of
        None \<Rightarrow>
          (calls @ [ActionsResolve],
           this\<lparr>submittedShippingAddress := currentShippingAddress this\<rparr>,
           Inr Resolved)
      | Some options \<Rightarrow>
          (let (shippingAmount', decorated) =
                 mapOptions (decorateOption data' this) shippingAmount options;
               shippingOptions = sortBy compareFn decorated
           in case shippingOptions of
                [] \<Rightarrow> (calls, this, Inl TypeError)
              | first # _ \<Rightarrow>
                  (let this3 = (if so_id first \<noteq> ''''
                                then this\<lparr>shippingOptionId := Some (so_id first)\<rparr>
                                else this);
                       this4 = this3\<lparr>submittedShippingAddress := currentShippingAddress this3\<rparr>
                   in (calls @ [OrderPatch (shippingPatch env baseOrderAmount
                                              shippingAmount' shippingOptions),
                                ActionsResolve],
                       this4, Inr Resolved))))"

text \<open>
  \<^verbatim>\<open>_onShippingChangeHandler\<close> (lines 136-239). \<^verbatim>\<open>consignments[0]\<close> of an empty array
  is \<^verbatim>\<open>undefined\<close> and reading its field throws.
\<close>

definition onShippingChangeHandler ::
  "Env \<Rightarrow> Strategy \<Rightarrow> ShippingChangeData \<Rightarrow> Cart \<Rightarrow> Call list \<times> Strategy \<times> (Error + Outcome)" where
  "onShippingChangeHandler env this data' cart' =
     (let baseOrderAmount = baseAmount cart';
          shippingAmount = ''0.00'';
          (calls, this1, translated) = transformToAddress env this (shipping_address data')
      in case translated of
           Inl e \<Rightarrow> (calls, this1, Inl e)
         | Inr address \<Rightarrow>
             (let this2 = this1\<lparr>currentShippingAddress := Some address\<rparr>;
                  payload = [\<lparr>shippingAddress = address,
                              payload_lineItems = collectLineItems (lineItems cart')\<rparr>];
                  checkout = getShippingOptions env (cart_id cart') payload;
                  calls2 = calls @ [GetShippingOptions (cart_id cart') payload]
              in case consignments checkout of
                   [] \<Rightarrow> (calls2, this2, Inl TypeError)
                 | consignment # _ \<Rightarrow>
                     (let available = availableShippingOptions consignment;
                          shippingRequired = (physicalItems (lineItems (cart checkout)) \<noteq> [])
                      in if \<not> shippingRequired then
                           (calls2 @ [OrderPatch [amountPatch baseOrderAmount]], this2, Inr Patched)
                         else if shippingRequired \<and> available = Some [] then
                           (calls2 @ [ActionsReject], this2, Inr Rejected)
                         else
                           shippingBranch env this2 data' baseOrderAmount shippingAmount
                             calls2 available)))"

subsection \<open>The click handler and teardown\<close>

text \<open>\<^verbatim>\<open>_handleClickButtonProvider\<close> (lines 72-74).\<close>

definition handleClickButtonProvider :: "Strategy \<Rightarrow> string \<Rightarrow> Strategy" where
  "handleClickButtonProvider this fundingSource =
     this\<lparr>isCredit := Some (fundingSource = ''credit'' \<or> fundingSource = ''paylater'')\<rparr>"

text \<open>\<^verbatim>\<open>deinitialize\<close> (lines 66-70).\<close>

definition deinitialize :: "Strategy \<Rightarrow> Strategy" where
  "deinitialize this = this\<lparr>isCredit := None\<rparr>"

subsection \<open>Reading the calls\<close>

text \<open>The operations of every \<^verbatim>\<open>actions.order.patch\<close> call, in the order of the calls.\<close>

fun patchesOf :: "Call list \<Rightarrow> PatchOperation list" where
  "patchesOf [] = []"
| "patchesOf (OrderPatch ops # calls) = ops @ patchesOf calls"
| "patchesOf (_ # calls) = patchesOf calls"

text \<open>The option lists that those operations attach to the order.\<close>

fun optionsOf :: "PatchOperation list \<Rightarrow> ShippingOption list list" where
  "optionsOf [] = []"
| "optionsOf (p # ps) =
     (case patch_value p of Options l \<Rightarrow> l # optionsOf ps | Amount _ \<Rightarrow> optionsOf ps)"

text \<open>How often the processor is asked for the store's countries.\<close>

fun countryFetches :: "Call list \<Rightarrow> nat" where
  "countryFetches [] = 0"
| "countryFetches (GetStoreCountries # calls) = Suc (countryFetches calls)"
| "countryFetches (_ # calls) = countryFetches calls"

text \<open>
  The options that the processor offers for an address: the field that the handler
  reads from the first consignment of the response (lines 146-147).
\<close>

definition offeredOptions :: "Env \<Rightarrow> Cart \<Rightarrow> Address \<Rightarrow> AvaliableShippingOption list option" where
  "offeredOptions env cart' address =
     (case consignments (getShippingOptions env (cart_id cart')
             [\<lparr>shippingAddress = address,
               payload_lineItems = collectLineItems (lineItems cart')\<rparr>]) of
        [] \<Rightarrow> None
      | consignment # _ \<Rightarrow> availableShippingOptions consignment)"

subsection \<open>The address contract in the specification's words\<close>

text \<open>
  The specification of the address translator: the contact's state is mapped to a
  subdivision of the resolved country by an exact match of the subdivision's code with
  the uppercased state, or by the table of United States names, whose abbreviation for
  the state is the subdivision's code. This definition follows the specification; it is
  compared with \<open>transformToAddress\<close> below.
\<close>

definition spec_subdivisionFor ::
  "UnitedStatesCodes list \<Rightarrow> string option \<Rightarrow> Region \<Rightarrow> bool" where
  "spec_subdivisionFor table st region =
     (Some (Region_code region) = map_option toUpperCase st
      \<or> list_ex (\<lambda>entry. Some (name entry) = st \<and> us_abbreviation entry = Region_code region) table)"

definition spec_translate ::
  "UnitedStatesCodes list \<Rightarrow> CountryTable \<Rightarrow> ShippingAddress \<Rightarrow> Error + Region" where
  "spec_translate table countryTable contact =
     (case find (\<lambda>country. Country_code country =
                   toUpperCase (case country_code contact of None \<Rightarrow> '''' | Some c \<Rightarrow> c))
                (data countryTable) of
        None \<Rightarrow> Inl (InvalidArgumentError ''Invalid Address'')
      | Some country \<Rightarrow>
          (case find (spec_subdivisionFor table (state contact)) (subdivisions country) of
             None \<Rightarrow> Inl (InvalidArgumentError ''Invalid Address'')
           | Some region \<Rightarrow> Inr region))"

subsection \<open>Example inputs\<close>

text \<open>
  The values of \<^verbatim>\<open>parseFloat\<close> on a decimal literal with an optional sign and no
  exponent; \<^verbatim>\<open>NaN\<close> when the text starts with no digit.
\<close>

definition isDigit :: "char \<Rightarrow> bool" where
  "isDigit c = (48 \<le> (of_char c :: nat) \<and> (of_char c :: nat) \<le> 57)"

definition digitsValue :: "string \<Rightarrow> nat" where
  "digitsValue s = foldl (\<lambda>acc c. 10 * acc + ((of_char c :: nat) - 48)) 0 s"

definition parseDecimal :: "string \<Rightarrow> jsnum" where
  "parseDecimal s =
     (let (sign, unsigned) =
            (case s of
               c # r \<Rightarrow> if c = CHR ''-'' then (- 1 :: rat, r)
                        else if c = CHR ''+'' then (1, r) else (1, s)
             | [] \<Rightarrow> (1, s));
          whole = takeWhile isDigit unsigned;
          rest = dropWhile isDigit unsigned;
          fraction = (case rest of
                        c # r \<Rightarrow> if c = CHR ''.'' then takeWhile isDigit r else []
                      | [] \<Rightarrow> [])
      in if whole = [] \<and> fraction = [] then NaN
         else Num (sign * (of_nat (digitsValue whole)
                           + of_nat (digitsValue fraction) / 10 ^ length fraction)))"

definition exampleStates :: "UnitedStatesCodes list" where
  "exampleStates =
     [\<lparr>name = ''Alabama'', us_abbreviation = ''AL''\<rparr>,
      \<lparr>name = ''Florida'', us_abbreviation = ''FL''\<rparr>,
      \<lparr>name = ''Texas'', us_abbreviation = ''TX''\<rparr>]"

definition exampleCountries :: CountryTable where
  "exampleCountries =
     \<lparr>data =
        [\<lparr>Country_code = ''US'',
          subdivisions = [\<lparr>Region_code = ''AL''\<rparr>, \<lparr>Region_code = ''FL''\<rparr>, \<lparr>Region_code = ''TX''\<rparr>]\<rparr>,
         \<lparr>Country_code = ''CA'',
          subdivisions = [\<lparr>Region_code = ''AB''\<rparr>, \<lparr>Region_code = ''BC''\<rparr>]\<rparr>]\<rparr>"

definition exampleCart :: "LineItem list \<Rightarrow> Cart" where
  "exampleCart physical =
     \<lparr>cart_id = ''cart-1'',
      baseAmount = 4999 / 100,
      lineItems = \<lparr>digitalItems = [\<lparr>item_id = ''ebook'', item_quantity = 1\<rparr>],
                   physicalItems = physical\<rparr>\<rparr>"

definition mug :: LineItem where
  "mug = \<lparr>item_id = ''mug'', item_quantity = 2\<rparr>"

definition optionA :: "bool \<Rightarrow> AvaliableShippingOption" where
  "optionA recommended =
     \<lparr>option_id = ''A'', description = ''Standard'', cost = 5, isRecommended = recommended\<rparr>"

definition optionB :: "bool \<Rightarrow> AvaliableShippingOption" where
  "optionB recommended =
     \<lparr>option_id = ''B'', description = ''Express'', cost = 12, isRecommended = recommended\<rparr>"

text \<open>A processor that answers every request with the same countries and checkout.\<close>

definition exampleEnv :: "LineItem list \<Rightarrow> AvaliableShippingOption list option \<Rightarrow> Env" where
  "exampleEnv physical available =
     \<lparr>UNITED_STATES_CODES = exampleStates,
      parseFloat = parseDecimal,
      getStoreCountries = exampleCountries,
      getShippingOptions = (\<lambda>cartId payload.
        \<lparr>consignments = [\<lparr>consignment_id = ''consignment-1'',
                           availableShippingOptions = available\<rparr>],
         cart = exampleCart physical\<rparr>)\<rparr>"

text \<open>The fields as \<^verbatim>\<open>initialize\<close> leaves them (lines 32 and 34) on a new object.\<close>

definition initialized :: Strategy where
  "initialized =
     \<lparr>isCredit = None,
      cache = Some \<lparr>countries = None\<rparr>,
      submittedShippingAddress = None,
      currentShippingAddress = None,
      shippingOptionId = None,
      intent = Some ''capture''\<rparr>"

definition contact :: "string \<Rightarrow> string \<Rightarrow> ShippingAddress" where
  "contact country st =
     \<lparr>contact_city = Some ''Austin'',
      postal_code = Some ''78701'',
      country_code = Some country,
      state = Some st\<rparr>"

definition addressTX :: Address where
  "addressTX = \<lparr>city = Some ''Austin'', postalCode = Some ''TX'', countryCode = Some ''us''\<rparr>"

definition chooseB :: SelectedShippingOption where
  "chooseB = \<lparr>selected_id = ''B'', amount = \<lparr>currency_code = ''USD'', money_value = ''12.00''\<rparr>\<rparr>"

definition shippingChange :: "SelectedShippingOption option \<Rightarrow> ShippingChangeData" where
  "shippingChange chosen =
     \<lparr>shipping_address = contact ''us'' ''tx'', selected_shipping_option = chosen\<rparr>"

section \<open>Properties\<close>

subsection \<open>Evaluation of the host functions and of the examples\<close>

lemma floor_numeral_div: "\<lfloor>(numeral a :: rat) / numeral b\<rfloor> = numeral a div numeral b"
  using floor_divide_of_int_eq [of "numeral a" "numeral b", where 'a = rat] by simp

lemma toUpperCase_examples:
  "toUpperCase ''us'' = ''US''" "toUpperCase ''tx'' = ''TX''"
  "toUpperCase ''US'' = ''US''" "toUpperCase ''CA'' = ''CA''"
  "toUpperCase ''Texas'' = ''TEXAS''"
  by (simp_all add: toUpperCase_def toUpperChar_def)

lemma toFixed2_examples:
  "toFixed2 (Num 5) = ''5.00''" "toFixed2 (Num 12) = ''12.00''"
  "toFixed2 (Num (4999 / 100)) = ''49.99''"
  "toFixed2 (Num (5499 / 100)) = ''54.99''" "toFixed2 (Num (6199 / 100)) = ''61.99''"
  by (simp_all add: toFixed2.simps digitsOf.simps digitChar_def Let_def floor_numeral_div)

lemma parseDecimal_examples:
  "parseDecimal ''5.00'' = Num 5" "parseDecimal ''12.00'' = Num 12" "parseDecimal ''0.00'' = Num 0"
  by (simp_all add: parseDecimal_def isDigit_def digitsValue_def)

lemma exampleEnv_fields:
  "UNITED_STATES_CODES (exampleEnv physical available) = exampleStates"
  "parseFloat (exampleEnv physical available) = parseDecimal"
  "getStoreCountries (exampleEnv physical available) = exampleCountries"
  "getShippingOptions (exampleEnv physical available) cartId payload =
     \<lparr>consignments = [\<lparr>consignment_id = ''consignment-1'',
                        availableShippingOptions = available\<rparr>],
      cart = exampleCart physical\<rparr>"
  by (simp_all add: exampleEnv_def)

lemma example_translation:
  assumes "cache this = Some \<lparr>countries = None\<rparr> \<or> cache this = Some \<lparr>countries = Some exampleCountries\<rparr>"
  shows "transformToAddress (exampleEnv physical available) this (contact ''us'' ''tx'') =
           ([GetStoreCountries], this\<lparr>cache := Some \<lparr>countries = Some exampleCountries\<rparr>\<rparr>, Inr addressTX)"
  using assms
  by (auto simp: transformToAddress_def exampleEnv_fields contact_def toUpperCase_examples
      exampleCountries_def transformUSCodes_def exampleStates_def addressTX_def)

subsection \<open>What address translation leaves alone\<close>

lemma transform_calls: "fst (transformToAddress env this contact') = [GetStoreCountries]"
  by (simp add: transformToAddress_def Let_def split: option.splits)

lemma transform_eqD:
  assumes "transformToAddress env this contact' = (calls, this', r)"
  shows "calls = [GetStoreCountries]"
  using transform_calls [of env this contact'] assms by simp

subsection \<open>The amount of a patch and its breakdown\<close>

lemma handler_patches:
  assumes "OrderPatch ops \<in> set (fst (onShippingChangeHandler env this d c))"
  shows "ops = [amountPatch (baseAmount c)]
         \<or> (\<exists>amount' options. ops = shippingPatch env (baseAmount c) amount' options)"
  using assms
  by (auto simp: onShippingChangeHandler_def shippingBranch_def Let_def dest!: transform_eqD
      split: prod.splits sum.splits list.splits option.splits if_splits)

text \<open>
  Claim C1. In every patch that the shipping-change handler sends, whichever branch
  sends it, the value of the amount is the two-decimal text of the sum of the item
  total of its breakdown and of the shipping value of its breakdown, read as a number;
  a breakdown without a shipping entry counts zero for it.
\<close>

theorem amount_is_sum_of_breakdown:
  assumes "OrderPatch ops \<in> set (fst (onShippingChangeHandler env this d c))"
    and "p \<in> set ops"
    and "patch_value p = Amount v"
  shows "amount_value v =
         toFixed2 (jsAdd (Num (item_total_value (item_total (breakdown v))))
                     (case shipping (breakdown v) of
                        None \<Rightarrow> Num 0
                      | Some m \<Rightarrow> parseFloat env (money_value m)))"
proof -
  from assms(1) consider
      (digital) "ops = [amountPatch (baseAmount c)]"
    | (physical) amount' options where "ops = shippingPatch env (baseAmount c) amount' options"
    using handler_patches by blast
  then show ?thesis
  proof cases
    case digital
    with assms(2,3) show ?thesis by (auto simp: amountPatch_def)
  next
    case physical
    with assms(2,3) show ?thesis by (auto simp: shippingPatch_def)
  qed
qed

lemma example_run_no_choice:
  assumes "cache this = Some \<lparr>countries = None\<rparr> \<or> cache this = Some \<lparr>countries = Some exampleCountries\<rparr>"
  shows "onShippingChangeHandler (exampleEnv [mug] (Some [optionA True, optionB False])) this
           (shippingChange None) (exampleCart [mug]) =
         ([GetStoreCountries,
           GetShippingOptions ''cart-1''
             [\<lparr>shippingAddress = addressTX,
               payload_lineItems = [\<lparr>itemId = ''ebook'', quantity = 1\<rparr>, \<lparr>itemId = ''mug'', quantity = 2\<rparr>]\<rparr>],
           OrderPatch
             (shippingPatch (exampleEnv [mug] (Some [optionA True, optionB False])) (4999 / 100) ''5.00''
                [shippingEntry (optionB False) False, shippingEntry (optionA True) True]),
           ActionsResolve],
          this\<lparr>cache := Some \<lparr>countries = Some exampleCountries\<rparr>,
                currentShippingAddress := Some addressTX,
                shippingOptionId := Some ''B'',
                submittedShippingAddress := Some addressTX\<rparr>,
          Inr Resolved)"
  using assms
  by (simp add: onShippingChangeHandler_def shippingBranch_def shippingChange_def example_translation
      exampleEnv_fields exampleCart_def collectLineItems_def mug_def decorateOption_def
      sortBy_def compareFn_def shippingEntry_def optionA_def optionB_def toFixed2_examples)

lemma initialized_cache: "cache initialized = Some \<lparr>countries = None\<rparr>"
  by (simp add: initialized_def)

theorem amount_is_sum_of_breakdown_witness:
  "\<exists>ops p v.
     OrderPatch ops \<in> set (fst (onShippingChangeHandler
        (exampleEnv [mug] (Some [optionA True, optionB False])) initialized
        (shippingChange None) (exampleCart [mug])))
     \<and> p \<in> set ops \<and> patch_value p = Amount v
     \<and> item_total_value (item_total (breakdown v)) = 4999 / 100
     \<and> map_option money_value (shipping (breakdown v)) = Some ''5.00''
     \<and> amount_value v = ''54.99''"
proof -
  let ?env = "exampleEnv [mug] (Some [optionA True, optionB False])"
  let ?ops = "shippingPatch ?env (4999 / 100) ''5.00''
                [shippingEntry (optionB False) False, shippingEntry (optionA True) True]"
  let ?v = "\<lparr>amount_currency_code = ''USD'',
             amount_value = toFixed2 (jsAdd (Num (4999 / 100)) (parseFloat ?env ''5.00'')),
             breakdown = \<lparr>item_total = \<lparr>item_total_currency_code = ''USD'',
                                         item_total_value = 4999 / 100\<rparr>,
                          shipping = Some \<lparr>currency_code = ''USD'', money_value = ''5.00''\<rparr>\<rparr>\<rparr>"
  have sent: "OrderPatch ?ops \<in> set (fst (onShippingChangeHandler ?env initialized
                (shippingChange None) (exampleCart [mug])))"
    by (simp add: example_run_no_choice initialized_cache)
  have first: "hd ?ops \<in> set ?ops"
    by (simp add: shippingPatch_def)
  have amount': "patch_value (hd ?ops) = Amount ?v"
    by (simp add: shippingPatch_def)
  have "amount_value ?v = ''54.99''"
    using amount_is_sum_of_breakdown [OF sent first amount']
    by (simp add: exampleEnv_fields parseDecimal_examples toFixed2_examples)
  with sent first amount' show ?thesis
    by (intro exI [of _ ?ops] exI [of _ "hd ?ops"] exI [of _ ?v]) simp
qed

subsection \<open>The branches without options\<close>

text \<open>
  Claim C4. When the address of the event translates, the processor answers with a
  first consignment whose list of available options is empty, and the cart of the
  answer holds a physical item, the handler calls the widget's reject, returns its
  result and sends no patch at all.
\<close>

theorem rejects_when_no_option_is_offered:
  assumes "transformToAddress env this (shipping_address d) = (calls, this', Inr address)"
    and "getShippingOptions env (cart_id c)
           [\<lparr>shippingAddress = address, payload_lineItems = collectLineItems (lineItems c)\<rparr>]
         = checkout"
    and "consignments checkout = consignment # others"
    and "physicalItems (lineItems (cart checkout)) \<noteq> []"
    and "availableShippingOptions consignment = Some []"
  shows "onShippingChangeHandler env this d c =
           ([GetStoreCountries,
             GetShippingOptions (cart_id c)
               [\<lparr>shippingAddress = address, payload_lineItems = collectLineItems (lineItems c)\<rparr>],
             ActionsReject],
            this'\<lparr>currentShippingAddress := Some address\<rparr>,
            Inr Rejected)
         \<and> patchesOf (fst (onShippingChangeHandler env this d c)) = []"
  using assms transform_eqD [OF assms(1)]
  by (simp add: onShippingChangeHandler_def shippingBranch_def Let_def)

theorem rejects_when_no_option_is_offered_witness:
  "physicalItems (lineItems (cart (getShippingOptions (exampleEnv [mug] (Some [])) ''cart-1'' []))) = [mug]
   \<and> map availableShippingOptions
         (consignments (getShippingOptions (exampleEnv [mug] (Some [])) ''cart-1'' [])) = [Some []]
   \<and> onShippingChangeHandler (exampleEnv [mug] (Some [])) initialized (shippingChange None)
        (exampleCart [mug]) =
      ([GetStoreCountries,
        GetShippingOptions ''cart-1''
          [\<lparr>shippingAddress = addressTX,
            payload_lineItems = [\<lparr>itemId = ''ebook'', quantity = 1\<rparr>, \<lparr>itemId = ''mug'', quantity = 2\<rparr>]\<rparr>],
        ActionsReject],
       initialized\<lparr>cache := Some \<lparr>countries = Some exampleCountries\<rparr>,
                    currentShippingAddress := Some addressTX\<rparr>,
       Inr Rejected)
   \<and> patchesOf (fst (onShippingChangeHandler (exampleEnv [mug] (Some [])) initialized
        (shippingChange None) (exampleCart [mug]))) = []"
proof -
  let ?env = "exampleEnv [mug] (Some [])"
  let ?consignment = "\<lparr>consignment_id = ''consignment-1'', availableShippingOptions = Some []\<rparr>"
  let ?checkout = "\<lparr>consignments = [?consignment], cart = exampleCart [mug]\<rparr>"
  have translated: "transformToAddress ?env initialized (shipping_address (shippingChange None)) =
      ([GetStoreCountries], initialized\<lparr>cache := Some \<lparr>countries = Some exampleCountries\<rparr>\<rparr>,
       Inr addressTX)"
    by (simp add: shippingChange_def example_translation initialized_def)
  have answered: "getShippingOptions ?env (cart_id (exampleCart [mug]))
      [\<lparr>shippingAddress = addressTX,
        payload_lineItems = collectLineItems (lineItems (exampleCart [mug]))\<rparr>] = ?checkout"
    by (simp add: exampleEnv_fields)
  have consignment: "consignments ?checkout = ?consignment # []"
    by simp
  have physical: "physicalItems (lineItems (cart ?checkout)) \<noteq> []"
    by (simp add: exampleCart_def)
  have empty: "availableShippingOptions ?consignment = Some []"
    by simp
  show ?thesis
    using rejects_when_no_option_is_offered [OF translated answered consignment physical empty]
    by (simp add: exampleEnv_fields exampleCart_def collectLineItems_def mug_def)
qed

lemma unknown_state_translation:
  "transformToAddress (exampleEnv physical available) initialized (contact ''US'' ''ZZ'') =
     ([GetStoreCountries], initialized\<lparr>cache := Some \<lparr>countries = Some exampleCountries\<rparr>\<rparr>,
      Inl (InvalidArgumentError ''Invalid Address''))"
  by (simp add: transformToAddress_def exampleEnv_fields initialized_def contact_def
      toUpperCase_def toUpperChar_def exampleCountries_def transformUSCodes_def exampleStates_def)

text \<open>
  Claim C5 as stated fails. The cart holds a digital item only, and the event names the
  state ZZ, which is no subdivision of US and no name of the table. Address translation
  throws before the processor is asked for the options, so the handler ends with the
  invalid address error and sends no patch.
\<close>

theorem digital_cart_with_unknown_state_sends_no_patch:
  "physicalItems (lineItems (exampleCart [])) = []
   \<and> physicalItems (lineItems (cart (getShippingOptions
         (exampleEnv [] (Some [optionA True])) ''cart-1'' []))) = []
   \<and> onShippingChangeHandler (exampleEnv [] (Some [optionA True])) initialized
        \<lparr>shipping_address = contact ''US'' ''ZZ'', selected_shipping_option = None\<rparr>
        (exampleCart []) =
      ([GetStoreCountries],
       initialized\<lparr>cache := Some \<lparr>countries = Some exampleCountries\<rparr>\<rparr>,
       Inl (InvalidArgumentError ''Invalid Address''))
   \<and> patchesOf (fst (onShippingChangeHandler (exampleEnv [] (Some [optionA True])) initialized
        \<lparr>shipping_address = contact ''US'' ''ZZ'', selected_shipping_option = None\<rparr>
        (exampleCart []))) = []"
  by (simp add: onShippingChangeHandler_def unknown_state_translation exampleEnv_fields
      exampleCart_def)

text \<open>
  An answer of the processor without any consignment ends the handler as well: reading
  the options of the first consignment throws before the branch on the physical items.
\<close>

lemma no_consignment_sends_no_patch:
  assumes "transformToAddress env this (shipping_address d) = (calls, this', Inr address)"
    and "consignments (getShippingOptions env (cart_id c)
           [\<lparr>shippingAddress = address, payload_lineItems = collectLineItems (lineItems c)\<rparr>])
         = []"
  shows "snd (snd (onShippingChangeHandler env this d c)) = Inl TypeError
         \<and> patchesOf (fst (onShippingChangeHandler env this d c)) = []"
  using assms transform_eqD [OF assms(1)]
  by (simp add: onShippingChangeHandler_def Let_def)

text \<open>
  Claim C5, amended. When the address of the event translates, the processor answers with a
  first consignment, and the cart of the answer holds no physical item, the handler
  sends one patch with the single operation \<^verbatim>\<open>replace\<close>: its value is the base
  amount of the order with two decimals, its breakdown holds the item total and no
  shipping entry. No list of options is attached, and neither the chosen option nor
  the last submitted address of the strategy changes.
\<close>

theorem digital_cart_patches_base_amount:
  assumes "transformToAddress env this (shipping_address d) = (calls, this', Inr address)"
    and "getShippingOptions env (cart_id c)
           [\<lparr>shippingAddress = address, payload_lineItems = collectLineItems (lineItems c)\<rparr>]
         = checkout"
    and "consignments checkout = consignment # others"
    and "physicalItems (lineItems (cart checkout)) = []"
  shows "onShippingChangeHandler env this d c =
           ([GetStoreCountries,
             GetShippingOptions (cart_id c)
               [\<lparr>shippingAddress = address, payload_lineItems = collectLineItems (lineItems c)\<rparr>],
             OrderPatch
               [\<lparr>op = ''replace'',
                 path = ''/purchase_units/@reference_id=='default'/amount'',
                 patch_value = Amount
                   \<lparr>amount_currency_code = ''USD'',
                    amount_value = toFixed2 (Num (baseAmount c)),
                    breakdown = \<lparr>item_total = \<lparr>item_total_currency_code = ''USD'',
                                                item_total_value = baseAmount c\<rparr>,
                                 shipping = None\<rparr>\<rparr>\<rparr>]],
            this'\<lparr>currentShippingAddress := Some address\<rparr>,
            Inr Patched)
         \<and> optionsOf (patchesOf (fst (onShippingChangeHandler env this d c))) = []"
  using assms transform_eqD [OF assms(1)]
  by (simp add: onShippingChangeHandler_def shippingBranch_def Let_def amountPatch_def)

theorem digital_cart_patches_base_amount_witness:
  "physicalItems (lineItems (cart (getShippingOptions (exampleEnv [] (Some [optionA True])) ''cart-1'' []))) = []
   \<and> onShippingChangeHandler (exampleEnv [] (Some [optionA True])) initialized (shippingChange None)
        (exampleCart []) =
      ([GetStoreCountries,
        GetShippingOptions ''cart-1''
          [\<lparr>shippingAddress = addressTX,
            payload_lineItems = [\<lparr>itemId = ''ebook'', quantity = 1\<rparr>]\<rparr>],
        OrderPatch
          [\<lparr>op = ''replace'',
            path = ''/purchase_units/@reference_id=='default'/amount'',
            patch_value = Amount
              \<lparr>amount_currency_code = ''USD'',
               amount_value = ''49.99'',
               breakdown = \<lparr>item_total = \<lparr>item_total_currency_code = ''USD'',
                                           item_total_value = 4999 / 100\<rparr>,
                            shipping = None\<rparr>\<rparr>\<rparr>]],
       initialized\<lparr>cache := Some \<lparr>countries = Some exampleCountries\<rparr>,
                    currentShippingAddress := Some addressTX\<rparr>,
       Inr Patched)"
proof -
  let ?env = "exampleEnv [] (Some [optionA True])"
  let ?consignment = "\<lparr>consignment_id = ''consignment-1'',
                       availableShippingOptions = Some [optionA True]\<rparr>"
  let ?checkout = "\<lparr>consignments = [?consignment], cart = exampleCart []\<rparr>"
  have translated: "transformToAddress ?env initialized (shipping_address (shippingChange None)) =
      ([GetStoreCountries], initialized\<lparr>cache := Some \<lparr>countries = Some exampleCountries\<rparr>\<rparr>,
       Inr addressTX)"
    by (simp add: shippingChange_def example_translation initialized_def)
  have answered: "getShippingOptions ?env (cart_id (exampleCart []))
      [\<lparr>shippingAddress = addressTX,
        payload_lineItems = collectLineItems (lineItems (exampleCart []))\<rparr>] = ?checkout"
    by (simp add: exampleEnv_fields)
  have consignment: "consignments ?checkout = ?consignment # []"
    by simp
  have digital: "physicalItems (lineItems (cart ?checkout)) = []"
    by (simp add: exampleCart_def)
  show ?thesis
    using digital_cart_patches_base_amount [OF translated answered consignment digital]
    by (simp add: exampleEnv_fields exampleCart_def collectLineItems_def toFixed2_examples)
qed

subsection \<open>The order of the attached options\<close>

lemma compareFn_symmetric: "compareFn a b = compareFn b a"
  by (simp add: compareFn_def)

lemma compareFn_not_positive: "compareFn a b \<le> 0"
  by (simp add: compareFn_def)

lemma sortBy_pair_swapped:
  assumes "selected a \<noteq> selected b"
  shows "sortBy compareFn [a, b] = [b, a]"
  using assms by (simp add: sortBy_def compareFn_def)

lemma insertForward_compareFn: "insertForward compareFn x prefix = x # prefix"
  by (cases prefix) (simp_all add: compareFn_def)

lemma foldl_insertForward_compareFn:
  "foldl (\<lambda>prefix x. insertForward compareFn x prefix) acc xs = rev xs @ acc"
  by (induction xs arbitrary: acc) (simp_all add: insertForward_compareFn)

lemma sortByForward_compareFn: "sortByForward compareFn xs = xs"
  by (simp add: sortByForward_def foldl_insertForward_compareFn)

text \<open>
  Claim C2, at the input where it fails. The processor offers option A, recommended,
  before option B. The handler marks A as selected and B as not, and the list that it
  attaches to the order holds B first and the selected A last; the identifier that the
  strategy keeps for the approval is that of B.
\<close>

theorem selected_option_sorted_last:
  "optionsOf (patchesOf (fst (onShippingChangeHandler
      (exampleEnv [mug] (Some [optionA True, optionB False])) initialized
      (shippingChange None) (exampleCart [mug])))) =
     [[shippingEntry (optionB False) False, shippingEntry (optionA True) True]]
   \<and> map (map selected) (optionsOf (patchesOf (fst (onShippingChangeHandler
      (exampleEnv [mug] (Some [optionA True, optionB False])) initialized
      (shippingChange None) (exampleCart [mug]))))) = [[False, True]]
   \<and> shippingOptionId (fst (snd (onShippingChangeHandler
      (exampleEnv [mug] (Some [optionA True, optionB False])) initialized
      (shippingChange None) (exampleCart [mug])))) = Some ''B''"
  by (simp add: example_run_no_choice initialized_cache shippingPatch_def shippingEntry_def)

text \<open>
  A host that reads the comparator the other way round never moves an entry, since
  \<open>compareFn\<close> never answers with a positive number. There the selected entry stays
  last whenever the processor offers the recommended option last.
\<close>

lemma forward_host_keeps_selected_last:
  "sortByForward compareFn [shippingEntry (optionB False) False, shippingEntry (optionA True) True] =
     [shippingEntry (optionB False) False, shippingEntry (optionA True) True]"
  by (rule sortByForward_compareFn)

subsection \<open>The cache of countries and the teardown\<close>

lemma countryFetches_append: "countryFetches (xs @ ys) = countryFetches xs + countryFetches ys"
  by (induction xs rule: countryFetches.induct) simp_all

text \<open>Every event asks the processor for the countries once, whatever the cache holds.\<close>

lemma one_request_per_event:
  "countryFetches (fst (onShippingChangeHandler env this d c)) = 1"
proof -
  obtain calls1 this1 translated where
    translated: "transformToAddress env this (shipping_address d) = (calls1, this1, translated)"
    by (cases "transformToAddress env this (shipping_address d)") auto
  then have "calls1 = [GetStoreCountries]"
    by (rule transform_eqD)
  with translated show ?thesis
    by (auto simp: onShippingChangeHandler_def shippingBranch_def Let_def countryFetches_append
        split: prod.splits sum.splits list.splits option.splits)
qed

lemma deinitialize_fields:
  "isCredit (deinitialize this) = None"
  "cache (deinitialize this) = cache this"
  "submittedShippingAddress (deinitialize this) = submittedShippingAddress this"
  "currentShippingAddress (deinitialize this) = currentShippingAddress this"
  "shippingOptionId (deinitialize this) = shippingOptionId this"
  "intent (deinitialize this) = intent this"
  by (simp_all add: deinitialize_def)

text \<open>
  Claim C8, at the input where it fails. Two shipping-change events in a row on an
  initialized strategy: the first one fills the cache, and the second one asks the
  processor for the countries again, so the two events make two requests.
\<close>

theorem countries_requested_by_every_event:
  "cache (fst (snd (onShippingChangeHandler
      (exampleEnv [mug] (Some [optionA True, optionB False])) initialized
      (shippingChange None) (exampleCart [mug])))) = Some \<lparr>countries = Some exampleCountries\<rparr>
   \<and> countryFetches
        (fst (onShippingChangeHandler
           (exampleEnv [mug] (Some [optionA True, optionB False])) initialized
           (shippingChange None) (exampleCart [mug]))
         @ fst (onShippingChangeHandler
           (exampleEnv [mug] (Some [optionA True, optionB False]))
           (fst (snd (onShippingChangeHandler
              (exampleEnv [mug] (Some [optionA True, optionB False])) initialized
              (shippingChange None) (exampleCart [mug]))))
           (shippingChange None) (exampleCart [mug]))) = 2"
  by (simp add: example_run_no_choice initialized_cache)

text \<open>
  Claim C9, at the input where it fails. After a click on the credit button and one
  shipping-change event, \<^verbatim>\<open>deinitialize\<close> clears the credit flag and nothing else: the
  two addresses, the chosen option, the cached countries and the intent are still there.
\<close>

theorem deinitialize_keeps_the_session:
  "deinitialize (fst (snd (onShippingChangeHandler
      (exampleEnv [mug] (Some [optionA True, optionB False]))
      (handleClickButtonProvider initialized ''credit'')
      (shippingChange None) (exampleCart [mug])))) =
     \<lparr>isCredit = None,
      cache = Some \<lparr>countries = Some exampleCountries\<rparr>,
      submittedShippingAddress = Some addressTX,
      currentShippingAddress = Some addressTX,
      shippingOptionId = Some ''B'',
      intent = Some ''capture''\<rparr>"
  by (simp add: example_run_no_choice handleClickButtonProvider_def initialized_def deinitialize_def)

subsection \<open>Address translation against its specification\<close>

lemma find_Some_holds:
  assumes "find P xs = Some x"
  shows "P x \<and> x \<in> set xs"
  using assms by (induction xs) (auto split: if_splits)

lemma translated_address_fields:
  assumes "snd (snd (transformToAddress env this contact')) = Inr a"
  shows "city a = contact_city contact' \<and> countryCode a = country_code contact'
         \<and> (\<exists>(country :: Country) (region :: Region).
               Country_code country =
                 toUpperCase (case country_code contact' of None \<Rightarrow> '''' | Some c \<Rightarrow> c)
               \<and> region \<in> set (subdivisions country)
               \<and> postalCode a = Some (Region_code region))"
proof -
  define table where "table =
    (case cache this of
       None \<Rightarrow> getStoreCountries env
     | Some c \<Rightarrow> (case countries c of None \<Rightarrow> getStoreCountries env | Some t \<Rightarrow> t))"
  define wanted where "wanted = (\<lambda>country :: Country. Country_code country =
    toUpperCase (case country_code contact' of None \<Rightarrow> '''' | Some c \<Rightarrow> c))"
  define accepted where "accepted =
    (\<lambda>region :: Region. Some (Region_code region) = map_option toUpperCase (state contact')
       \<or> transformUSCodes (UNITED_STATES_CODES env) (state contact') \<noteq> None)"
  have result: "snd (snd (transformToAddress env this contact')) =
      (case (case find wanted (data table) of
               None \<Rightarrow> None
             | Some country \<Rightarrow> find accepted (subdivisions country)) of
         Some region \<Rightarrow> Inr \<lparr>city = contact_city contact',
                               postalCode = Some (Region_code region),
                               countryCode = country_code contact'\<rparr>
       | None \<Rightarrow> Inl (InvalidArgumentError ''Invalid Address''))"
    unfolding transformToAddress_def table_def wanted_def accepted_def
    by (simp add: Let_def split: option.splits)
  with assms obtain country region where
      country: "find wanted (data table) = Some country"
    and region: "find accepted (subdivisions country) = Some region"
    and a: "a = \<lparr>city = contact_city contact', postalCode = Some (Region_code region),
                 countryCode = country_code contact'\<rparr>"
    by (auto split: option.splits)
  from find_Some_holds [OF country] have "wanted country"
    by simp
  moreover from find_Some_holds [OF region] have "region \<in> set (subdivisions country)"
    by simp
  ultimately show ?thesis
    using a unfolding wanted_def by auto
qed

text \<open>
  Claim C6, at the input where it fails. The contact names the country CA and the
  state Texas. No subdivision of CA has the code TEXAS, and the abbreviation TX of the
  table is no subdivision of CA either, so the specification fails with the invalid
  address error. The code returns an address, with the code of the first subdivision of
  CA in it.
\<close>

theorem foreign_state_name_is_accepted:
  "spec_translate exampleStates exampleCountries (contact ''CA'' ''Texas'') =
     Inl (InvalidArgumentError ''Invalid Address'')
   \<and> snd (snd (transformToAddress (exampleEnv [mug] None) initialized (contact ''CA'' ''Texas''))) =
     Inr \<lparr>city = Some ''Austin'', postalCode = Some ''AB'', countryCode = Some ''CA''\<rparr>"
  by (simp add: spec_translate_def spec_subdivisionFor_def transformToAddress_def
      exampleEnv_fields initialized_def contact_def toUpperCase_examples exampleCountries_def
      exampleStates_def transformUSCodes_def)

text \<open>
  Claim C10, at the input where it fails. The contact names the country US and the
  state Texas, which the table maps to the subdivision TX. The address that the code
  returns has the three fields and has dropped the postal code of the contact, but the
  field holds AL, the code of the first subdivision of US, and not TX.
\<close>

theorem state_name_gets_first_subdivision:
  "spec_translate exampleStates exampleCountries (contact ''US'' ''Texas'') =
     Inr \<lparr>Region_code = ''TX''\<rparr>
   \<and> snd (snd (transformToAddress (exampleEnv [mug] None) initialized (contact ''US'' ''Texas''))) =
     Inr \<lparr>city = Some ''Austin'', postalCode = Some ''AL'', countryCode = Some ''US''\<rparr>"
  by (simp add: spec_translate_def spec_subdivisionFor_def transformToAddress_def
      exampleEnv_fields initialized_def contact_def toUpperCase_examples exampleCountries_def
      exampleStates_def transformUSCodes_def)

subsection \<open>Which options end up selected\<close>

lemma mset_insertSorted: "mset (insertSorted cmp x xs) = add_mset x (mset xs)"
  by (induction xs) auto

lemma mset_foldl_insertSorted:
  "mset (foldl (\<lambda>prefix x. insertSorted cmp x prefix) acc xs) = mset acc + mset xs"
  by (induction xs arbitrary: acc) (auto simp: mset_insertSorted)

lemma mset_sortBy: "mset (sortBy cmp xs) = mset xs"
  by (simp add: sortBy_def mset_foldl_insertSorted)

lemma length_filter_mset_eq:
  assumes "mset xs = mset ys"
  shows "length (filter P xs) = length (filter P ys)"
proof -
  from assms have "mset (filter P xs) = mset (filter P ys)"
    by (simp add: mset_filter)
  then show ?thesis
    by (metis size_mset)
qed

lemma mapOptions_entries:
  assumes "\<And>amount' x. snd (f amount' x) = g x"
  shows "snd (mapOptions f amount' xs) = map g xs"
  using assms
  by (induction xs arbitrary: amount') (simp_all add: Let_def case_prod_beta)

lemma decorateOption_recommended:
  assumes "selected_shipping_option d = None
           \<or> \<not> isAddressSame (currentShippingAddress this) (submittedShippingAddress this)"
  shows "snd (decorateOption d this amount' x) = shippingEntry x (isRecommended x)"
  using assms by (auto simp: decorateOption_def split: option.splits)

lemma transform_keeps:
  assumes "transformToAddress env this contact' = (calls, this', r)"
  shows "submittedShippingAddress this' = submittedShippingAddress this"
    and "currentShippingAddress this' = currentShippingAddress this"
    and "shippingOptionId this' = shippingOptionId this"
    and "isCredit this' = isCredit this"
    and "intent this' = intent this"
  using assms by (auto simp: transformToAddress_def Let_def split: option.splits)

lemma count_selected_entries:
  "length (filter selected (map (\<lambda>x. shippingEntry x (isRecommended x)) xs)) =
   length (filter isRecommended xs)"
  by (induction xs) (auto simp: shippingEntry_def)

lemma handler_attached_options:
  assumes "onShippingChangeHandler env this d c = (calls, this', r)"
    and "options \<in> set (optionsOf (patchesOf calls))"
  obtains calls1 this1 address available amount' decorated where
    "transformToAddress env this (shipping_address d) = (calls1, this1, Inr address)"
    "offeredOptions env c address = Some available"
    "mapOptions (decorateOption d (this1\<lparr>currentShippingAddress := Some address\<rparr>)) ''0.00'' available
       = (amount', decorated)"
    "options = sortBy compareFn decorated"
    "currentShippingAddress this' = Some address"
    "submittedShippingAddress this' = Some address"
    "patchesOf calls = shippingPatch env (baseAmount c) amount' options"
  using assms
  by (auto simp: onShippingChangeHandler_def shippingBranch_def offeredOptions_def Let_def amountPatch_def shippingPatch_def
      dest!: transform_eqD
      split: prod.splits sum.splits list.splits option.splits if_splits)

lemma example_run_two_recommended:
  "onShippingChangeHandler (exampleEnv [mug] (Some [optionA True, optionB True])) initialized
     (shippingChange None) (exampleCart [mug]) =
   ([GetStoreCountries,
     GetShippingOptions ''cart-1''
       [\<lparr>shippingAddress = addressTX,
         payload_lineItems = [\<lparr>itemId = ''ebook'', quantity = 1\<rparr>, \<lparr>itemId = ''mug'', quantity = 2\<rparr>]\<rparr>],
     OrderPatch
       (shippingPatch (exampleEnv [mug] (Some [optionA True, optionB True])) (4999 / 100) ''12.00''
          [shippingEntry (optionA True) True, shippingEntry (optionB True) True]),
     ActionsResolve],
    initialized\<lparr>cache := Some \<lparr>countries = Some exampleCountries\<rparr>,
                 currentShippingAddress := Some addressTX,
                 shippingOptionId := Some ''A'',
                 submittedShippingAddress := Some addressTX\<rparr>,
    Inr Resolved)"
  by (simp add: onShippingChangeHandler_def shippingBranch_def shippingChange_def example_translation initialized_cache
      exampleEnv_fields exampleCart_def collectLineItems_def mug_def decorateOption_def
      sortBy_def compareFn_def shippingEntry_def optionA_def optionB_def toFixed2_examples)

text \<open>
  Claim C3 as stated fails: when the processor flags both of its options as recommended
  and the shopper has chosen none, both options end up selected.
\<close>

theorem several_recommended_all_selected:
  "optionsOf (patchesOf (fst (onShippingChangeHandler
      (exampleEnv [mug] (Some [optionA True, optionB True])) initialized
      (shippingChange None) (exampleCart [mug])))) =
     [[shippingEntry (optionA True) True, shippingEntry (optionB True) True]]
   \<and> map (map selected) (optionsOf (patchesOf (fst (onShippingChangeHandler
      (exampleEnv [mug] (Some [optionA True, optionB True])) initialized
      (shippingChange None) (exampleCart [mug]))))) = [[True, True]]"
  by (simp add: example_run_two_recommended shippingPatch_def shippingEntry_def)

text \<open>
  Claim C3, amended. When the event carries no chosen option, or the translated
  address is not the one last submitted, the options attached to the order are, up to
  their order, the offered options, each one selected exactly when it is flagged
  recommended. So as many options are selected as are recommended: exactly one when
  exactly one is recommended, and all of them when several are.
\<close>

theorem selected_are_the_recommended:
  assumes run: "onShippingChangeHandler env this d c = (calls, this', r)"
    and attached: "options \<in> set (optionsOf (patchesOf calls))"
    and unlocked: "selected_shipping_option d = None
                   \<or> submittedShippingAddress this \<noteq> currentShippingAddress this'"
  shows "\<exists>address available.
           currentShippingAddress this' = Some address
           \<and> offeredOptions env c address = Some available
           \<and> mset options = mset (map (\<lambda>x. shippingEntry x (isRecommended x)) available)
           \<and> length (filter selected options) = length (filter isRecommended available)"
proof -
  from run attached obtain calls1 this1 address available amount' decorated where
      translated: "transformToAddress env this (shipping_address d) = (calls1, this1, Inr address)"
    and offered: "offeredOptions env c address = Some available"
    and mapped: "mapOptions (decorateOption d (this1\<lparr>currentShippingAddress := Some address\<rparr>))
                   ''0.00'' available = (amount', decorated)"
    and sorted: "options = sortBy compareFn decorated"
    and current: "currentShippingAddress this' = Some address"
    by (rule handler_attached_options)
  let ?this2 = "this1\<lparr>currentShippingAddress := Some address\<rparr>"
  let ?entry = "\<lambda>x. shippingEntry x (isRecommended x)"
  from unlocked current transform_keeps(1) [OF translated]
  have "selected_shipping_option d = None
        \<or> \<not> isAddressSame (currentShippingAddress ?this2) (submittedShippingAddress ?this2)"
    by (auto simp: isAddressSame_def)
  then have "\<And>amount'' x. snd (decorateOption d ?this2 amount'' x) = ?entry x"
    by (rule decorateOption_recommended)
  then have "snd (mapOptions (decorateOption d ?this2) ''0.00'' available) = map ?entry available"
    by (rule mapOptions_entries)
  with mapped have decorated: "decorated = map ?entry available"
    by simp
  with sorted have same: "mset options = mset (map ?entry available)"
    by (simp add: mset_sortBy)
  from same have "length (filter selected options) = length (filter selected (map ?entry available))"
    by (rule length_filter_mset_eq)
  also have "\<dots> = length (filter isRecommended available)"
    by (rule count_selected_entries)
  finally show ?thesis
    using current offered same by blast
qed

theorem selected_are_the_recommended_witness:
  "[shippingEntry (optionB False) False, shippingEntry (optionA True) True]
     \<in> set (optionsOf (patchesOf (fst (onShippingChangeHandler
          (exampleEnv [mug] (Some [optionA True, optionB False])) initialized
          (shippingChange None) (exampleCart [mug])))))
   \<and> selected_shipping_option (shippingChange None) = None
   \<and> offeredOptions (exampleEnv [mug] (Some [optionA True, optionB False])) (exampleCart [mug]) addressTX
       = Some [optionA True, optionB False]
   \<and> mset [shippingEntry (optionB False) False, shippingEntry (optionA True) True]
       = mset (map (\<lambda>x. shippingEntry x (isRecommended x)) [optionA True, optionB False])
   \<and> length (filter selected [shippingEntry (optionB False) False, shippingEntry (optionA True) True])
       = length (filter isRecommended [optionA True, optionB False])"
proof -
  let ?env = "exampleEnv [mug] (Some [optionA True, optionB False])"
  let ?options = "[shippingEntry (optionB False) False, shippingEntry (optionA True) True]"
  let ?calls = "[GetStoreCountries,
     GetShippingOptions ''cart-1''
       [\<lparr>shippingAddress = addressTX,
         payload_lineItems = [\<lparr>itemId = ''ebook'', quantity = 1\<rparr>, \<lparr>itemId = ''mug'', quantity = 2\<rparr>]\<rparr>],
     OrderPatch (shippingPatch ?env (4999 / 100) ''5.00'' ?options),
     ActionsResolve]"
  let ?this' = "initialized\<lparr>cache := Some \<lparr>countries = Some exampleCountries\<rparr>,
                 currentShippingAddress := Some addressTX,
                 shippingOptionId := Some ''B'',
                 submittedShippingAddress := Some addressTX\<rparr>"
  have run: "onShippingChangeHandler ?env initialized (shippingChange None) (exampleCart [mug]) =
      (?calls, ?this', Inr Resolved)"
    by (simp add: example_run_no_choice initialized_cache)
  have attached: "?options \<in> set (optionsOf (patchesOf ?calls))"
    by (simp add: shippingPatch_def)
  have unlocked: "selected_shipping_option (shippingChange None) = None
      \<or> submittedShippingAddress initialized \<noteq> currentShippingAddress ?this'"
    by (simp add: shippingChange_def)
  have offered: "offeredOptions ?env (exampleCart [mug]) addressTX = Some [optionA True, optionB False]"
    by (simp add: offeredOptions_def exampleEnv_fields)
  from selected_are_the_recommended [OF run attached unlocked] offered run attached
  show ?thesis
    by (simp add: shippingChange_def)
qed

subsection \<open>The same event twice\<close>

lemma decorateOption_cong:
  assumes "selected_shipping_option d = None
           \<or> isAddressSame (currentShippingAddress this) (submittedShippingAddress this)
             = isAddressSame (currentShippingAddress that) (submittedShippingAddress that)"
  shows "decorateOption d this = decorateOption d that"
  using assms by (auto simp: decorateOption_def fun_eq_iff split: option.splits)

lemma transform_again:
  assumes "transformToAddress env this contact' = (calls, this', r)"
    and "cache that = cache this'"
  shows "transformToAddress env that contact' = (calls, that, r)"
  using assms
  by (cases "cache this"; cases "cache that")
     (auto simp: transformToAddress_def Let_def split: option.splits)

lemma handler_after_failure:
  assumes "transformToAddress env this (shipping_address d) = (calls, this', Inl e)"
  shows "onShippingChangeHandler env this d c = (calls, this', Inl e)"
  using assms by (simp add: onShippingChangeHandler_def)

lemma handler_state:
  assumes "transformToAddress env this (shipping_address d) = (calls1, this1, Inr address)"
    and "onShippingChangeHandler env this d c = (calls, this', r)"
  shows "cache this' = cache this1"
    and "currentShippingAddress this' = Some address"
    and "submittedShippingAddress this' = Some address
         \<or> submittedShippingAddress this' = submittedShippingAddress this1"
  using assms
  by (auto simp: onShippingChangeHandler_def shippingBranch_def Let_def
      split: prod.splits list.splits option.splits if_splits)

lemma shippingBranch_cong:
  assumes decorate: "decorateOption d that2 = decorateOption d this2"
  shows "fst (shippingBranch env that2 d b a calls2 available)
           = fst (shippingBranch env this2 d b a calls2 available)
         \<and> snd (snd (shippingBranch env that2 d b a calls2 available))
           = snd (snd (shippingBranch env this2 d b a calls2 available))"
proof (cases available)
  case None
  then show ?thesis
    by (simp add: shippingBranch_def)
next
  case (Some options)
  obtain amount' decorated where
    mapped: "mapOptions (decorateOption d this2) a options = (amount', decorated)"
    by (cases "mapOptions (decorateOption d this2) a options") auto
  show ?thesis
    by (cases "sortBy compareFn decorated")
       (simp_all add: shippingBranch_def Some decorate mapped Let_def)
qed

lemma handler_cong:
  assumes one: "transformToAddress env this (shipping_address d) = (calls1, this1, Inr address)"
    and other: "transformToAddress env that (shipping_address d) = (calls1, that1, Inr address)"
    and same: "selected_shipping_option d = None
               \<or> isAddressSame (Some address) (submittedShippingAddress that1)
                 = isAddressSame (Some address) (submittedShippingAddress this1)"
  shows "fst (onShippingChangeHandler env that d c) = fst (onShippingChangeHandler env this d c)"
    and "snd (snd (onShippingChangeHandler env that d c)) =
         snd (snd (onShippingChangeHandler env this d c))"
proof -
  let ?this2 = "this1\<lparr>currentShippingAddress := Some address\<rparr>"
  let ?that2 = "that1\<lparr>currentShippingAddress := Some address\<rparr>"
  let ?checkout = "getShippingOptions env (cart_id c)
      [\<lparr>shippingAddress = address, payload_lineItems = collectLineItems (lineItems c)\<rparr>]"
  have decorate: "decorateOption d ?that2 = decorateOption d ?this2"
  proof (rule decorateOption_cong)
    from same
    show "selected_shipping_option d = None
          \<or> isAddressSame (currentShippingAddress ?that2) (submittedShippingAddress ?that2)
            = isAddressSame (currentShippingAddress ?this2) (submittedShippingAddress ?this2)"
      by simp
  qed
  note branch = shippingBranch_cong [OF decorate]
  show "fst (onShippingChangeHandler env that d c) = fst (onShippingChangeHandler env this d c)"
  proof (cases "consignments ?checkout")
    case Nil
    then show ?thesis
      by (simp add: onShippingChangeHandler_def one other Let_def)
  next
    case (Cons consignment others)
    then show ?thesis
      by (simp add: onShippingChangeHandler_def one other Let_def)
         (intro impI branch [THEN conjunct1])
  qed
  show "snd (snd (onShippingChangeHandler env that d c)) =
         snd (snd (onShippingChangeHandler env this d c))"
  proof (cases "consignments ?checkout")
    case Nil
    then show ?thesis
      by (simp add: onShippingChangeHandler_def one other Let_def)
  next
    case (Cons consignment others)
    then show ?thesis
      by (simp add: onShippingChangeHandler_def one other Let_def)
         (intro impI branch [THEN conjunct2])
  qed
qed

lemma example_run_choice_first:
  assumes "cache this = Some \<lparr>countries = None\<rparr> \<or> cache this = Some \<lparr>countries = Some exampleCountries\<rparr>"
    and "submittedShippingAddress this \<noteq> Some addressTX"
  shows "onShippingChangeHandler (exampleEnv [mug] (Some [optionA True, optionB False])) this
           (shippingChange (Some chooseB)) (exampleCart [mug]) =
         ([GetStoreCountries,
           GetShippingOptions ''cart-1''
             [\<lparr>shippingAddress = addressTX,
               payload_lineItems = [\<lparr>itemId = ''ebook'', quantity = 1\<rparr>, \<lparr>itemId = ''mug'', quantity = 2\<rparr>]\<rparr>],
           OrderPatch
             (shippingPatch (exampleEnv [mug] (Some [optionA True, optionB False])) (4999 / 100) ''5.00''
                [shippingEntry (optionB False) False, shippingEntry (optionA True) True]),
           ActionsResolve],
          this\<lparr>cache := Some \<lparr>countries = Some exampleCountries\<rparr>,
                currentShippingAddress := Some addressTX,
                shippingOptionId := Some ''B'',
                submittedShippingAddress := Some addressTX\<rparr>,
          Inr Resolved)"
  using assms
  by (simp add: onShippingChangeHandler_def shippingBranch_def shippingChange_def example_translation
      exampleEnv_fields exampleCart_def collectLineItems_def mug_def decorateOption_def
      isAddressSame_def sortBy_def compareFn_def shippingEntry_def optionA_def optionB_def
      toFixed2_examples eq_commute [of "Some addressTX"])

lemma example_run_choice_again:
  assumes "cache this = Some \<lparr>countries = None\<rparr> \<or> cache this = Some \<lparr>countries = Some exampleCountries\<rparr>"
    and "submittedShippingAddress this = Some addressTX"
  shows "onShippingChangeHandler (exampleEnv [mug] (Some [optionA True, optionB False])) this
           (shippingChange (Some chooseB)) (exampleCart [mug]) =
         ([GetStoreCountries,
           GetShippingOptions ''cart-1''
             [\<lparr>shippingAddress = addressTX,
               payload_lineItems = [\<lparr>itemId = ''ebook'', quantity = 1\<rparr>, \<lparr>itemId = ''mug'', quantity = 2\<rparr>]\<rparr>],
           OrderPatch
             (shippingPatch (exampleEnv [mug] (Some [optionA True, optionB False])) (4999 / 100) ''12.00''
                [shippingEntry (optionB False) True, shippingEntry (optionA True) False]),
           ActionsResolve],
          this\<lparr>cache := Some \<lparr>countries = Some exampleCountries\<rparr>,
                currentShippingAddress := Some addressTX,
                shippingOptionId := Some ''B'',
                submittedShippingAddress := Some addressTX\<rparr>,
          Inr Resolved)"
  using assms
  by (simp add: onShippingChangeHandler_def shippingBranch_def shippingChange_def example_translation
      exampleEnv_fields exampleCart_def collectLineItems_def mug_def decorateOption_def
      isAddressSame_def sortBy_def compareFn_def shippingEntry_def optionA_def optionB_def
      toFixed2_examples chooseB_def)

text \<open>
  Claim C7 as stated fails. The processor offers A, recommended, and B; the event
  carries the shopper's choice of B. On an initialized strategy the first call selects
  the recommended A and patches the amount with its cost; the second call, with the
  same event, finds the address already submitted, selects B and patches the amount
  with the value of the choice.
\<close>

theorem first_call_ignores_the_choice:
  "patchesOf (fst (onShippingChangeHandler
      (exampleEnv [mug] (Some [optionA True, optionB False])) initialized
      (shippingChange (Some chooseB)) (exampleCart [mug]))) =
     shippingPatch (exampleEnv [mug] (Some [optionA True, optionB False])) (4999 / 100) ''5.00''
       [shippingEntry (optionB False) False, shippingEntry (optionA True) True]
   \<and> patchesOf (fst (onShippingChangeHandler
      (exampleEnv [mug] (Some [optionA True, optionB False]))
      (fst (snd (onShippingChangeHandler
         (exampleEnv [mug] (Some [optionA True, optionB False])) initialized
         (shippingChange (Some chooseB)) (exampleCart [mug]))))
      (shippingChange (Some chooseB)) (exampleCart [mug]))) =
     shippingPatch (exampleEnv [mug] (Some [optionA True, optionB False])) (4999 / 100) ''12.00''
       [shippingEntry (optionB False) True, shippingEntry (optionA True) False]
   \<and> patchesOf (fst (onShippingChangeHandler
      (exampleEnv [mug] (Some [optionA True, optionB False]))
      (fst (snd (onShippingChangeHandler
         (exampleEnv [mug] (Some [optionA True, optionB False])) initialized
         (shippingChange (Some chooseB)) (exampleCart [mug]))))
      (shippingChange (Some chooseB)) (exampleCart [mug])))
     \<noteq> patchesOf (fst (onShippingChangeHandler
      (exampleEnv [mug] (Some [optionA True, optionB False])) initialized
      (shippingChange (Some chooseB)) (exampleCart [mug])))"
proof -
  have fresh: "submittedShippingAddress initialized \<noteq> Some addressTX"
    by (simp add: initialized_def)
  show ?thesis
    by (simp add: example_run_choice_first [OF disjI1 [OF initialized_cache] fresh]
        example_run_choice_again shippingPatch_def)
qed

text \<open>
  Claim C7, amended. Two calls in a row with the same event, cart and processor
  answers issue the same calls, so the same patches, and return the same result,
  when the event carries no chosen option or when the address of the event was already
  the last submitted one before the first of the two calls.
\<close>

theorem same_event_twice_same_patches:
  assumes first: "onShippingChangeHandler env this d c = (calls, this', r)"
    and settled: "selected_shipping_option d = None
                  \<or> submittedShippingAddress this = currentShippingAddress this'"
  shows "\<exists>this''. onShippingChangeHandler env this' d c = (calls, this'', r)"
proof -
  obtain calls1 this1 translated where
    translated: "transformToAddress env this (shipping_address d) = (calls1, this1, translated)"
    by (cases "transformToAddress env this (shipping_address d)") auto
  show ?thesis
  proof (cases translated)
    case (Inl e)
    with translated first have "calls = calls1" "this' = this1" "r = Inl e"
      by (simp_all add: handler_after_failure)
    moreover from translated Inl have "transformToAddress env this1 (shipping_address d)
        = (calls1, this1, Inl e)"
      by (simp add: transform_again)
    ultimately show ?thesis
      by (simp add: handler_after_failure)
  next
    case (Inr address)
    with translated have one: "transformToAddress env this (shipping_address d)
        = (calls1, this1, Inr address)"
      by simp
    note state = handler_state [OF one first]
    from one state(1) have other: "transformToAddress env this' (shipping_address d)
        = (calls1, this', Inr address)"
      by (simp add: transform_again)
    have same: "selected_shipping_option d = None
          \<or> isAddressSame (Some address) (submittedShippingAddress this')
            = isAddressSame (Some address) (submittedShippingAddress this1)"
    proof (cases "selected_shipping_option d")
      case None
      then show ?thesis
        by simp
    next
      case (Some chosen)
      with settled state(2) have "submittedShippingAddress this = Some address"
        by simp
      with transform_keeps(1) [OF one] have "submittedShippingAddress this1 = Some address"
        by simp
      moreover from this state(3) have "submittedShippingAddress this' = Some address"
        by auto
      ultimately show ?thesis
        by simp
    qed
    from handler_cong [OF one other same] first
    have "fst (onShippingChangeHandler env this' d c) = calls"
      and "snd (snd (onShippingChangeHandler env this' d c)) = r"
      by simp_all
    then show ?thesis
      by (cases "onShippingChangeHandler env this' d c") auto
  qed
qed

theorem same_event_twice_same_patches_witness:
  "selected_shipping_option (shippingChange (Some chooseB)) = Some chooseB
   \<and> (\<exists>calls this' this''.
        submittedShippingAddress
          (initialized\<lparr>cache := Some \<lparr>countries = Some exampleCountries\<rparr>,
                       currentShippingAddress := Some addressTX,
                       shippingOptionId := Some ''B'',
                       submittedShippingAddress := Some addressTX\<rparr>) = currentShippingAddress this'
        \<and> onShippingChangeHandler (exampleEnv [mug] (Some [optionA True, optionB False]))
            (initialized\<lparr>cache := Some \<lparr>countries = Some exampleCountries\<rparr>,
                         currentShippingAddress := Some addressTX,
                         shippingOptionId := Some ''B'',
                         submittedShippingAddress := Some addressTX\<rparr>)
            (shippingChange (Some chooseB)) (exampleCart [mug]) = (calls, this', Inr Resolved)
        \<and> onShippingChangeHandler (exampleEnv [mug] (Some [optionA True, optionB False])) this'
            (shippingChange (Some chooseB)) (exampleCart [mug]) = (calls, this'', Inr Resolved)
        \<and> patchesOf calls =
            shippingPatch (exampleEnv [mug] (Some [optionA True, optionB False])) (4999 / 100) ''12.00''
              [shippingEntry (optionB False) True, shippingEntry (optionA True) False])"
proof -
  let ?env = "exampleEnv [mug] (Some [optionA True, optionB False])"
  let ?start = "initialized\<lparr>cache := Some \<lparr>countries = Some exampleCountries\<rparr>,
                 currentShippingAddress := Some addressTX,
                 shippingOptionId := Some ''B'',
                 submittedShippingAddress := Some addressTX\<rparr>"
  let ?calls = "[GetStoreCountries,
     GetShippingOptions ''cart-1''
       [\<lparr>shippingAddress = addressTX,
         payload_lineItems = [\<lparr>itemId = ''ebook'', quantity = 1\<rparr>, \<lparr>itemId = ''mug'', quantity = 2\<rparr>]\<rparr>],
     OrderPatch (shippingPatch ?env (4999 / 100) ''12.00''
        [shippingEntry (optionB False) True, shippingEntry (optionA True) False]),
     ActionsResolve]"
  have first: "onShippingChangeHandler ?env ?start (shippingChange (Some chooseB)) (exampleCart [mug])
      = (?calls, ?start, Inr Resolved)"
    by (simp add: example_run_choice_again)
  have settled: "selected_shipping_option (shippingChange (Some chooseB)) = None
      \<or> submittedShippingAddress ?start = currentShippingAddress ?start"
    by simp
  from same_event_twice_same_patches [OF first settled] first
  show ?thesis
    by (auto simp: shippingChange_def)
qed

end
